theory Spec2Isabelle
  imports Main "HOL-Library.AList"
begin

section \<open>Go values: bytes, errors, panics\<close>

text \<open>
  A Go \<^verbatim>\<open>string\<close> and a \<^verbatim>\<open>[]byte\<close> are sequences of 8-bit bytes; \<^typ>\<open>char\<close> is
  exactly an 8-bit value, so both are \<^typ>\<open>char list\<close> and a key such as \<^verbatim>\<open>"1"\<close> is the
  literal \<open>''1''\<close>. A \<^verbatim>\<open>uint32\<close> is a \<^typ>\<open>nat\<close> below \<open>2^32\<close> with the wrap-around written
  out (\<open>uint32\<close>); \<^verbatim>\<open>int\<close> and \<^verbatim>\<open>int64\<close> are 64 bits wide on the platforms the
  program is built for and hold every length and offset that occurs, so they are \<^typ>\<open>nat\<close>
  where the source keeps them non-negative.
\<close>

type_synonym byte = char
type_synonym bytes = "byte list"

datatype error =
    ErrNotFound            \<comment> \<open>\<^verbatim>\<open>record does not exist\<close>\<close>
  | EOF                    \<comment> \<open>\<^verbatim>\<open>io.EOF\<close>\<close>
  | ErrBufferFull          \<comment> \<open>\<^verbatim>\<open>bufio.ErrBufferFull\<close>\<close>
  | ErrNoProgress          \<comment> \<open>\<^verbatim>\<open>io.ErrNoProgress\<close>\<close>
  | ErrClosed              \<comment> \<open>\<^verbatim>\<open>os.ErrClosed\<close>: use of a closed file\<close>
  | ErrInvalid             \<comment> \<open>\<^verbatim>\<open>os.ErrInvalid\<close>: method called on a nil file\<close>
  | ENOENT                 \<comment> \<open>no such file or directory\<close>
  | ENOSPC                 \<comment> \<open>no space left on device\<close>
  | ErrInvalidDataType     \<comment> \<open>\<^verbatim>\<open>invalid data type\<close>\<close>
  | ErrCantReadValue nat nat \<comment> \<open>\<^verbatim>\<open>can't read value bytes (read %d, expected %d)\<close>\<close>
  | ErrCorruptedFile       \<comment> \<open>\<^verbatim>\<open>corrupted file\<close>\<close>

datatype panic =
    IndexOutOfRange        \<comment> \<open>runtime error: index out of range\<close>
  | SliceBoundsOutOfRange  \<comment> \<open>runtime error: slice bounds out of range\<close>

text \<open>A Go call either returns or panics; no function of the store recovers a panic.\<close>

datatype 'a result = Return 'a | Panic panic

definition uint32 :: "nat \<Rightarrow> nat" where
  "uint32 n = n mod 4294967296"

subsection \<open>\<^verbatim>\<open>encoding/binary\<close>, little endian\<close>

text \<open>
  \<^verbatim>\<open>binary.LittleEndian.PutUint32(b, v)\<close> stores the four bytes of \<open>v\<close>, lowest first
  (\<^const>\<open>char_of\<close> keeps the low eight bits). \<^verbatim>\<open>Uint32(b)\<close> starts with the bounds
  check \<^verbatim>\<open>_ = b[3]\<close>, which panics on a slice shorter than four bytes.
\<close>

definition PutUint32 :: "nat \<Rightarrow> bytes" where
  "PutUint32 v = [char_of v, char_of (v div 256), char_of (v div 65536), char_of (v div 16777216)]"

fun Uint32 :: "bytes \<Rightarrow> nat result" where
  "Uint32 (b0 # b1 # b2 # b3 # _) =
     Return (of_char b0 + 256 * of_char b1 + 65536 * of_char b2 + 16777216 * of_char b3)"
| "Uint32 _ = Panic IndexOutOfRange"

subsection \<open>Slices\<close>

text \<open>
  A slice is the bytes below its length together with the bytes of its backing array
  between length and capacity: \<^verbatim>\<open>s[lo:]\<close> needs \<open>lo \<le> len(s)\<close>, \<^verbatim>\<open>s[lo:hi]\<close> needs
  \<open>lo \<le> hi \<le> cap(s)\<close> and may reach into the spare capacity; otherwise the runtime
  panics. \<^verbatim>\<open>make([]byte, n)\<close> followed by \<^verbatim>\<open>copy(dst, src)\<close> is \<open>make_copy n src\<close>.
\<close>

type_synonym slice = "bytes \<times> bytes"

definition slice_from :: "slice \<Rightarrow> nat \<Rightarrow> slice result" where
  "slice_from s lo =
     (if lo \<le> length (fst s) then Return (drop lo (fst s), snd s)
      else Panic SliceBoundsOutOfRange)"

definition slice_range :: "slice \<Rightarrow> nat \<Rightarrow> nat \<Rightarrow> bytes result" where
  "slice_range s lo hi =
     (if lo \<le> hi \<and> hi \<le> length (fst s) + length (snd s)
      then Return (take (hi - lo) (drop lo (fst s @ snd s)))
      else Panic SliceBoundsOutOfRange)"

definition make_copy :: "nat \<Rightarrow> bytes \<Rightarrow> bytes" where
  "make_copy n src = take n src @ replicate (n - length src) (CHR 0x00)"

section \<open>The entry codec (\<^verbatim>\<open>datastore/entry.go\<close>)\<close>

record entry =
  e_key :: bytes
  e_value :: bytes
  e_dataType :: bytes

definition getLength :: "bytes \<Rightarrow> bytes \<Rightarrow> bytes \<Rightarrow> nat" where
  "getLength k v dataType = length k + length v + length dataType + 12"

definition GetLength :: "entry \<Rightarrow> nat" where
  "GetLength e = getLength (e_key e) (e_value e) (e_dataType e)"

text \<open>
  \<^verbatim>\<open>Encode\<close> allocates \<open>kl + vl + 12\<close> zero bytes and fills four disjoint regions that
  cover all of them: the total size at 0, the key length at 4, the key at 8, the value
  length at \<open>kl + 8\<close> and the value at \<open>kl + 12\<close>. The last statement,
  \<^verbatim>\<open>copy(res[kl+12+vl:], e.dataType)\<close>, copies into the empty slice at the end of the
  buffer, that is nothing: the data type is never written.
\<close>

definition Encode :: "entry \<Rightarrow> bytes" where
  "Encode e =
     (let kl = length (e_key e);
          vl = length (e_value e);
          sz = kl + vl + 12
      in PutUint32 (uint32 sz) @ PutUint32 (uint32 kl) @ e_key e
         @ PutUint32 (uint32 vl) @ e_value e)"

text \<open>
  \<^verbatim>\<open>Decode\<close> assigns the fields of its receiver one after the other, so the entry as it
  stands when a panic is raised is part of the outcome. All offsets are \<^verbatim>\<open>uint32\<close>
  arithmetic. After the value it reads a third length-prefixed field, the data type, at
  offset \<open>kl + 12 + vl\<close>.
\<close>

definition Decode :: "entry \<Rightarrow> slice \<Rightarrow> entry \<times> panic option" where
  "Decode e input =
     (case slice_from input 4 of Panic p \<Rightarrow> (e, Some p) | Return s4 \<Rightarrow>
      case Uint32 (fst s4) of Panic p \<Rightarrow> (e, Some p) | Return kl \<Rightarrow>
      case slice_range input 8 (uint32 (kl + 8)) of Panic p \<Rightarrow> (e, Some p) | Return ks \<Rightarrow>
      let e1 = e\<lparr>e_key := make_copy kl ks\<rparr> in
      case slice_from input (uint32 (kl + 8)) of Panic p \<Rightarrow> (e1, Some p) | Return sv \<Rightarrow>
      case Uint32 (fst sv) of Panic p \<Rightarrow> (e1, Some p) | Return vl \<Rightarrow>
      case slice_range input (uint32 (kl + 12)) (uint32 (kl + 12 + vl)) of
        Panic p \<Rightarrow> (e1, Some p) | Return vs \<Rightarrow>
      let e2 = e1\<lparr>e_value := make_copy vl vs\<rparr> in
      case slice_from input (uint32 (kl + 12 + vl)) of Panic p \<Rightarrow> (e2, Some p) | Return sd \<Rightarrow>
      case Uint32 (fst sd) of Panic p \<Rightarrow> (e2, Some p) | Return dl \<Rightarrow>
      case slice_range input (uint32 (kl + 12 + vl + 4)) (uint32 (kl + 12 + vl + 4 + dl)) of
        Panic p \<Rightarrow> (e2, Some p) | Return ds \<Rightarrow>
      (e2\<lparr>e_dataType := make_copy dl ds\<rparr>, None))"

section \<open>\<^verbatim>\<open>bufio.Reader\<close> over a regular file\<close>

text \<open>
  The reader holds the bytes read ahead and not yet consumed (\<open>rd_buf\<close>, at most
  \<open>rd_size\<close> of them), the bytes of the file still to be read (\<open>rd_src\<close>) and the sticky
  error of the last read of the file (\<open>rd_err\<close>). A read of a regular file into \<open>n > 0\<close>
  bytes of room gives the next \<open>min n (remaining)\<close> bytes, or \<^verbatim>\<open>0, io.EOF\<close> at the end
  of the file. The buffer of a reader is at least 16 bytes and \<^verbatim>\<open>fill\<close> is only called
  on a buffer with room, so its first branch (a read into no room at all, which makes no
  progress) is never taken by a reader built with \<open>NewReaderSize\<close>.
\<close>

record Reader =
  rd_buf :: bytes
  rd_src :: bytes
  rd_err :: "error option"
  rd_size :: nat

definition NewReaderSize :: "bytes \<Rightarrow> nat \<Rightarrow> Reader" where
  "NewReaderSize content sz =
     \<lparr>rd_buf = [], rd_src = content, rd_err = None, rd_size = max sz 16\<rparr>"

definition NewReader :: "bytes \<Rightarrow> Reader" where
  "NewReader content = NewReaderSize content 4096"

definition fill :: "Reader \<Rightarrow> Reader" where
  "fill b =
     (if rd_size b \<le> length (rd_buf b) then b\<lparr>rd_err := Some ErrNoProgress\<rparr>
      else if rd_src b = [] then b\<lparr>rd_err := Some EOF\<rparr>
      else let n = min (rd_size b - length (rd_buf b)) (length (rd_src b))
           in b\<lparr>rd_buf := rd_buf b @ take n (rd_src b), rd_src := drop n (rd_src b)\<rparr>)"

definition readErr :: "Reader \<Rightarrow> Reader \<times> error option" where
  "readErr b = (b\<lparr>rd_err := None\<rparr>, rd_err b)"

function peek_fill :: "Reader \<Rightarrow> nat \<Rightarrow> Reader" where
  "peek_fill b n =
     (if length (rd_buf b) < n \<and> length (rd_buf b) < rd_size b \<and> rd_err b = None
      then peek_fill (fill b) n else b)"
  by pat_completeness auto
termination
  by (relation "measure (\<lambda>(b, n). if rd_err b = None then Suc (length (rd_src b)) else 0)")
     (auto simp: fill_def Let_def)

declare peek_fill.simps [simp del]

definition Peek :: "Reader \<Rightarrow> nat \<Rightarrow> Reader \<times> bytes \<times> error option" where
  "Peek b0 n =
     (let b = peek_fill b0 n in
      if n > rd_size b then (b, rd_buf b, Some ErrBufferFull)
      else if length (rd_buf b) < n
      then (case readErr b of
              (b', None) \<Rightarrow> (b', rd_buf b, Some ErrBufferFull)
            | (b', Some e) \<Rightarrow> (b', rd_buf b, Some e))
      else (b, take n (rd_buf b), None))"

function discard_loop :: "Reader \<Rightarrow> nat \<Rightarrow> nat \<Rightarrow> Reader \<times> nat \<times> error option" where
  "discard_loop b n remain =
     (let b1 = (if rd_buf b = [] then fill b else b);
          skip = min (length (rd_buf b1)) remain;
          b2 = b1\<lparr>rd_buf := drop skip (rd_buf b1)\<rparr>
      in if remain - skip = 0 then (b2, n, None)
         else if rd_err b2 \<noteq> None
         then (case readErr b2 of (b3, e) \<Rightarrow> (b3, n - (remain - skip), e))
         else discard_loop b2 n (remain - skip))"
  by pat_completeness auto
termination
  by (relation "measure (\<lambda>(b, n, remain). length (rd_buf b) + length (rd_src b))")
     (auto simp: fill_def Let_def min_def split: if_splits)

declare discard_loop.simps [simp del]

definition Discard :: "Reader \<Rightarrow> nat \<Rightarrow> Reader \<times> nat \<times> error option" where
  "Discard b n = (if n = 0 then (b, 0, None) else discard_loop b n n)"

text \<open>
  \<^verbatim>\<open>Read(p)\<close> with \<open>n = len(p)\<close>: it returns the bytes it stored in \<open>p\<close>; their number is
  the count \<^verbatim>\<open>Read\<close> reports. With bytes in the buffer it hands out those only, even when
  they are fewer than \<open>n\<close>; with an empty buffer it reads the file once, directly into
  \<open>p\<close> when \<open>p\<close> is at least as large as the buffer.
\<close>

definition copy_out :: "Reader \<Rightarrow> nat \<Rightarrow> Reader \<times> bytes \<times> error option" where
  "copy_out b n =
     (let m = min n (length (rd_buf b))
      in (b\<lparr>rd_buf := drop m (rd_buf b)\<rparr>, take m (rd_buf b), None))"

definition Read :: "Reader \<Rightarrow> nat \<Rightarrow> Reader \<times> bytes \<times> error option" where
  "Read b n =
     (if n = 0
      then (if rd_buf b \<noteq> [] then (b, [], None)
            else (case readErr b of (b', e) \<Rightarrow> (b', [], e)))
      else if rd_buf b = []
      then (if rd_err b \<noteq> None then (case readErr b of (b', e) \<Rightarrow> (b', [], e))
            else if n \<ge> rd_size b
            then (if rd_src b = [] then (b, [], Some EOF)
                  else let k = min n (length (rd_src b))
                       in (b\<lparr>rd_src := drop k (rd_src b)\<rparr>, take k (rd_src b), None))
            else (if rd_src b = [] then (b, [], Some EOF)
                  else let k = min (rd_size b) (length (rd_src b))
                       in copy_out (b\<lparr>rd_buf := take k (rd_src b), rd_src := drop k (rd_src b)\<rparr>) n))
      else copy_out b n)"

section \<open>\<^verbatim>\<open>readValue\<close>\<close>

text \<open>
  \<^verbatim>\<open>readValue\<close> peeks the eight header bytes, takes the key length from bytes 4 to 7,
  discards the header and the key, then reads four bytes into \<^verbatim>\<open>dataTypeBuf\<close> (the
  comparison that follows compares the buffer with itself and never fails), and only
  then peeks four bytes as the value length, discards them and reads that many bytes.
\<close>

definition readValue :: "Reader \<Rightarrow> (bytes \<times> error option) result" where
  "readValue rd0 =
     (case Peek rd0 8 of
        (rd1, header, Some err) \<Rightarrow> Return ([], Some err)
      | (rd1, header, None) \<Rightarrow>
     (case Uint32 (drop 4 header) of
        Panic p \<Rightarrow> Panic p
      | Return keySize \<Rightarrow>
     (case Discard rd1 (keySize + 8) of
        (rd2, d, Some err) \<Rightarrow> Return ([], Some err)
      | (rd2, d, None) \<Rightarrow>
     (case Read rd2 4 of
        (rd3, dataTypeBuf, Some err) \<Rightarrow> Return ([], Some err)
      | (rd3, dataTypeBuf, None) \<Rightarrow>
     (case Peek rd3 4 of
        (rd4, header2, Some err) \<Rightarrow> Return ([], Some err)
      | (rd4, header2, None) \<Rightarrow>
     (case Uint32 header2 of
        Panic p \<Rightarrow> Panic p
      | Return valSize \<Rightarrow>
     (case Discard rd4 4 of
        (rd5, d2, Some err) \<Rightarrow> Return ([], Some err)
      | (rd5, d2, None) \<Rightarrow>
     (case Read rd5 valSize of
        (rd6, data, Some err) \<Rightarrow> Return ([], Some err)
      | (rd6, data, None) \<Rightarrow>
          if length data \<noteq> valSize
          then Return ([], Some (ErrCantReadValue (length data) valSize))
          else Return (data, None)))))))))"

section \<open>Files\<close>

text \<open>
  The file system is the content of every file by path, the directories that exist and
  the number of bytes the device can still take. A \<^verbatim>\<open>*os.File\<close> is its path and whether
  it has been closed; the nil pointer is \<open>None\<close>. Every method of a closed file fails
  with \<^verbatim>\<open>os.ErrClosed\<close>, every method of a nil file with \<^verbatim>\<open>os.ErrInvalid\<close>. Files are
  opened with \<^verbatim>\<open>O_APPEND\<close>, so a write lands at the end of the file; a write the device
  has no room for stores the bytes that fit and fails with \<^verbatim>\<open>ENOSPC\<close>.
\<close>

record File =
  f_name :: string
  f_closed :: bool

record os_state =
  files :: "(string \<times> bytes) list"
  dirs :: "string list"
  free_space :: nat

definition Join :: "string \<Rightarrow> string \<Rightarrow> string" where
  "Join d name = d @ ''/'' @ name"

definition parent :: "string \<Rightarrow> string" where
  "parent path = rev (drop 1 (dropWhile (\<lambda>c. c \<noteq> CHR ''/'') (rev path)))"

definition OpenFile :: "os_state \<Rightarrow> string \<Rightarrow> (error + File) \<times> os_state" where
  "OpenFile s path =
     (case map_of (files s) path of
        Some content \<Rightarrow> (Inr \<lparr>f_name = path, f_closed = False\<rparr>, s)
      | None \<Rightarrow>
          if parent path \<in> set (dirs s)
          then (Inr \<lparr>f_name = path, f_closed = False\<rparr>, s\<lparr>files := files s @ [(path, [])]\<rparr>)
          else (Inl ENOENT, s))"

definition Stat :: "File option \<Rightarrow> os_state \<Rightarrow> error + nat" where
  "Stat fo s =
     (case fo of
        None \<Rightarrow> Inl ErrInvalid
      | Some f \<Rightarrow>
          if f_closed f then Inl ErrClosed
          else (case map_of (files s) (f_name f) of
                  None \<Rightarrow> Inl ENOENT
                | Some content \<Rightarrow> Inr (length content)))"

definition Write :: "File option \<Rightarrow> bytes \<Rightarrow> os_state \<Rightarrow> nat \<times> error option \<times> os_state" where
  "Write fo data s =
     (case fo of
        None \<Rightarrow> (0, Some ErrInvalid, s)
      | Some f \<Rightarrow>
          if f_closed f then (0, Some ErrClosed, s)
          else (case map_of (files s) (f_name f) of
                  None \<Rightarrow> (0, Some ENOENT, s)
                | Some content \<Rightarrow>
                    if length data \<le> free_space s
                    then (length data, None,
                          s\<lparr>files := AList.update (f_name f) (content @ data) (files s),
                            free_space := free_space s - length data\<rparr>)
                    else (free_space s, Some ENOSPC,
                          s\<lparr>files := AList.update (f_name f)
                                       (content @ take (free_space s) data) (files s),
                            free_space := 0\<rparr>)))"

definition Close_file :: "File option \<Rightarrow> error option \<times> File option" where
  "Close_file fo =
     (case fo of
        None \<Rightarrow> (Some ErrInvalid, None)
      | Some f \<Rightarrow>
          if f_closed f then (Some ErrClosed, Some f)
          else (None, Some (f\<lparr>f_closed := True\<rparr>)))"

section \<open>The store (\<^verbatim>\<open>datastore/db.go\<close>)\<close>

text \<open>
  A \<^verbatim>\<open>hashIndex\<close> is a Go map from key to offset: an association list with one pair
  per key, whose order stands for the order in which \<^verbatim>\<open>range\<close> happens to visit the
  map. The channels of \<^verbatim>\<open>Db\<close> are not state: a caller of \<^verbatim>\<open>Put\<close> or \<^verbatim>\<open>Get\<close> blocks
  until the writer loop, respectively the index loop, has handled its request, and the
  unbuffered \<^verbatim>\<open>indexOps\<close> channel is served in order, so the requests of one caller
  act on the state one after the other. The field \<^verbatim>\<open>Db.index\<close> is never used. The
  goroutine started by \<^verbatim>\<open>mergeOldSegments\<close> runs at some later moment: \<open>merges\<close>
  counts the merges started and not yet run, and \<open>mergeOldSegments\<close> is the body of one.
\<close>

definition outFileName :: string where
  "outFileName = ''current-data''"

definition bufSize :: nat where
  "bufSize = 8192"

definition deleteMarker :: bytes where
  "deleteMarker = ''DELETE''"

record Segment =
  s_outOffset :: nat
  index :: "(bytes \<times> nat) list"
  filePath :: string

record Db =
  out :: "File option"
  outPath :: string
  outOffset :: nat
  dir :: string
  segmentSize :: int
  lastSegmentIndex :: nat
  segments :: "Segment list"

record world =
  db :: Db
  os :: os_state
  merges :: nat

fun decimal :: "nat \<Rightarrow> string" where
  "decimal n = (if n < 10 then [''0123456789'' ! n]
                else decimal (n div 10) @ [''0123456789'' ! (n mod 10)])"

declare decimal.simps [simp del]

definition generateNewFileName :: "Db \<Rightarrow> string \<times> Db" where
  "generateNewFileName d =
     (Join (dir d) (outFileName @ decimal (lastSegmentIndex d)),
      d\<lparr>lastSegmentIndex := lastSegmentIndex d + 1\<rparr>)"

definition createNewSegment :: "world \<Rightarrow> error option \<times> world" where
  "createNewSegment w =
     (case generateNewFileName (db w) of (fp, d1) \<Rightarrow>
      case OpenFile (os w) fp of
        (Inl err, s1) \<Rightarrow> (Some err, w\<lparr>db := d1, os := s1\<rparr>)
      | (Inr f, s1) \<Rightarrow>
          let newSegment = \<lparr>s_outOffset = 0, index = [], filePath = fp\<rparr>;
              d2 = d1\<lparr>out := Some f, outOffset := 0, outPath := fp,
                      segments := segments d1 @ [newSegment]\<rparr>
          in (None, w\<lparr>db := d2, os := s1,
                      merges := (if length (segments d2) \<ge> 3 then merges w + 1 else merges w)\<rparr>))"

definition setKey :: "bytes \<Rightarrow> nat \<Rightarrow> world \<Rightarrow> world result" where
  "setKey k n w =
     (let d = db w in
      if segments d = [] then Panic IndexOutOfRange
      else let l = last (segments d);
               l' = l\<lparr>index := AList.update k (outOffset d) (index l)\<rparr>
           in Return (w\<lparr>db := d\<lparr>segments := butlast (segments d) @ [l'],
                                 outOffset := outOffset d + n\<rparr>\<rparr>))"

fun findSegment :: "Segment list \<Rightarrow> bytes \<Rightarrow> (Segment \<times> nat) option" where
  "findSegment [] k = None"
| "findSegment (s # older) k =
     (case map_of (index s) k of Some pos \<Rightarrow> Some (s, pos) | None \<Rightarrow> findSegment older k)"

definition getSegmentAndPos :: "Db \<Rightarrow> bytes \<Rightarrow> (Segment \<times> nat) option" where
  "getSegmentAndPos d k = findSegment (rev (segments d)) k"

definition getFromSegment :: "Segment \<Rightarrow> nat \<Rightarrow> os_state \<Rightarrow> (bytes \<times> error option) result" where
  "getFromSegment s position st =
     (case map_of (files st) (filePath s) of
        None \<Rightarrow> Return ([], Some ENOENT)
      | Some content \<Rightarrow>
          (case readValue (NewReader (drop position content)) of
             Panic p \<Rightarrow> Panic p
           | Return (v, Some err) \<Rightarrow> Return ([], Some err)
           | Return (v, None) \<Rightarrow> Return (v, None)))"

text \<open>
  \<^verbatim>\<open>Get\<close>: the expression \<^verbatim>\<open>value[len(value)-1:]\<close> panics on the empty string.
\<close>

definition Get :: "bytes \<Rightarrow> world \<Rightarrow> (bytes \<times> error option) result" where
  "Get k w =
     (case getSegmentAndPos (db w) k of
        None \<Rightarrow> Return ([], Some ErrNotFound)
      | Some (s, pos) \<Rightarrow>
          (case getFromSegment s pos (os w) of
             Panic p \<Rightarrow> Panic p
           | Return (v, Some err) \<Rightarrow> Return ([], Some err)
           | Return (v, None) \<Rightarrow>
               if v = [] then Panic SliceBoundsOutOfRange
               else if [last v] \<noteq> ''s'' then Return ([], Some ErrInvalidDataType)
               else Return (butlast v, None)))"

text \<open>
  One round of the loop of \<^verbatim>\<open>PutGoroutine\<close>, for the entry \<open>e\<close> received from
  \<^verbatim>\<open>putOps\<close>; the error is what the round sends to \<^verbatim>\<open>putDone\<close>, which is what \<^verbatim>\<open>Put\<close>
  returns.
\<close>

definition PutGoroutine :: "entry \<Rightarrow> world \<Rightarrow> (error option \<times> world) result" where
  "PutGoroutine e w =
     (let len_e = GetLength e in
      case Stat (out (db w)) (os w) of
        Inl err \<Rightarrow> Return (Some err, w)
      | Inr sz \<Rightarrow>
          (case (if int sz + int len_e > segmentSize (db w) then createNewSegment w
                 else (None, w)) of
             (Some err, w1) \<Rightarrow> Return (Some err, w1)
           | (None, w1) \<Rightarrow>
               (case Write (out (db w1)) (Encode e) (os w1) of
                  (n, None, s2) \<Rightarrow>
                    (case setKey (e_key e) n (w1\<lparr>os := s2\<rparr>) of
                       Panic p \<Rightarrow> Panic p
                     | Return w2 \<Rightarrow> Return (None, w2))
                | (n, Some err, s2) \<Rightarrow> Return (None, w1\<lparr>os := s2\<rparr>))))"

definition Put :: "bytes \<Rightarrow> bytes \<Rightarrow> world \<Rightarrow> (error option \<times> world) result" where
  "Put k v w = PutGoroutine \<lparr>e_key = k, e_value = v @ ''s'', e_dataType = []\<rparr> w"

definition Close :: "world \<Rightarrow> error option \<times> world" where
  "Close w =
     (case Close_file (out (db w)) of
        (err, fo) \<Rightarrow> (err, w\<lparr>db := (db w)\<lparr>out := fo\<rparr>\<rparr>))"

subsection \<open>Merging the old segments\<close>

fun findKeyInSegments :: "Segment list \<Rightarrow> bytes \<Rightarrow> bool" where
  "findKeyInSegments [] k = False"
| "findKeyInSegments (s # ss) k =
     (case map_of (index s) k of Some pos \<Rightarrow> True | None \<Rightarrow> findKeyInSegments ss k)"

text \<open>
  The inner loop of the merge, over the pairs of \<open>s.index\<close> still to visit. \<open>older\<close> is
  the test \<^verbatim>\<open>i < lastSegmentIndex\<close> and \<open>newer\<close> the slice
  \<^verbatim>\<open>db.segments[i+1:lastSegmentIndex+1]\<close>. The state is the index of the new segment,
  the local \<^verbatim>\<open>offset\<close> and the file system. The error of \<^verbatim>\<open>getFromSegment\<close> is
  dropped (\<^verbatim>\<open>value, _ :=\<close>), so a failed read merges the empty value.
\<close>

fun merge_segment ::
  "bool \<Rightarrow> Segment list \<Rightarrow> Segment \<Rightarrow> (bytes \<times> nat) list \<Rightarrow> File
    \<Rightarrow> (bytes \<times> nat) list \<times> nat \<times> os_state
    \<Rightarrow> ((bytes \<times> nat) list \<times> nat \<times> os_state) result" where
  "merge_segment older newer s [] f st = Return st"
| "merge_segment older newer s ((k, pos) # rest) f (ix, offset, fs) =
     (if older \<and> findKeyInSegments newer k
      then merge_segment older newer s rest f (ix, offset, fs)
      else (case getFromSegment s pos fs of
              Panic p \<Rightarrow> Panic p
            | Return (v, err) \<Rightarrow>
                if v = deleteMarker
                then merge_segment older newer s rest f (ix, offset, fs)
                else (case Write (Some f) (Encode \<lparr>e_key = k, e_value = v, e_dataType = []\<rparr>) fs of
                        (n, None, fs') \<Rightarrow>
                          merge_segment older newer s rest f (AList.update k offset ix, offset + n, fs')
                      | (n, Some werr, fs') \<Rightarrow>
                          merge_segment older newer s rest f (ix, offset, fs'))))"

text \<open>The outer loop, over the segments \<open>0 .. len(db.segments) - 2\<close> from the oldest.\<close>

fun merge_loop ::
  "Segment list \<Rightarrow> File \<Rightarrow> (bytes \<times> nat) list \<times> nat \<times> os_state
    \<Rightarrow> ((bytes \<times> nat) list \<times> nat \<times> os_state) result" where
  "merge_loop [] f st = Return st"
| "merge_loop (s # newer) f st =
     (case merge_segment (newer \<noteq> []) newer s (index s) f st of
        Panic p \<Rightarrow> Panic p
      | Return st' \<Rightarrow> merge_loop newer f st')"

definition mergeOldSegments :: "world \<Rightarrow> world result" where
  "mergeOldSegments w =
     (case generateNewFileName (db w) of (fp, d1) \<Rightarrow>
      case OpenFile (os w) fp of
        (Inl err, s1) \<Rightarrow> Return (w\<lparr>db := d1, os := s1, merges := merges w - 1\<rparr>)
      | (Inr f, s1) \<Rightarrow>
          (case merge_loop (butlast (segments d1)) f ([], 0, s1) of
             Panic p \<Rightarrow> Panic p
           | Return (ix, offset, s2) \<Rightarrow>
               if segments d1 = [] then Panic IndexOutOfRange
               else Return (w\<lparr>db := d1\<lparr>segments :=
                                    [\<lparr>s_outOffset = 0, index = ix, filePath = fp\<rparr>,
                                     last (segments d1)]\<rparr>,
                              os := s2, merges := merges w - 1\<rparr>)))"

subsection \<open>Opening a store\<close>

text \<open>
  One round of the loop of \<^verbatim>\<open>recover\<close>. \<open>buf\<close> is the local array of \<open>bufSize\<close> bytes:
  a frame shorter than \<open>bufSize\<close> is read into its front, so the slice handed to
  \<^verbatim>\<open>Decode\<close> has the rest of the array as spare capacity. The loop only ends with an
  error (\<^verbatim>\<open>io.EOF\<close> on a clean end) or a panic.
\<close>

datatype recover_step = Stop "(error \<times> world) result" | Continue Reader bytes world

definition recover_frame :: "Reader \<Rightarrow> bytes \<Rightarrow> bytes \<Rightarrow> world \<Rightarrow> recover_step" where
  "recover_frame rd1 header buf w =
     (case Uint32 header of
        Panic p \<Rightarrow> Stop (Panic p)
      | Return sz \<Rightarrow>
          (case Read rd1 sz of
             (rd2, got, Some err) \<Rightarrow> Stop (Return (err, w))
           | (rd2, got, None) \<Rightarrow>
               if length got \<noteq> sz then Stop (Return (ErrCorruptedFile, w))
               else (case Decode \<lparr>e_key = [], e_value = [], e_dataType = []\<rparr>
                            (got, if sz < bufSize then drop sz buf else []) of
                       (e, Some p) \<Rightarrow> Stop (Panic p)
                     | (e, None) \<Rightarrow>
                         (case setKey (e_key e) (length got) w of
                            Panic p \<Rightarrow> Stop (Panic p)
                          | Return w' \<Rightarrow>
                              Continue rd2 (if sz < bufSize then got @ drop sz buf else buf) w'))))"

definition recover_round :: "Reader \<Rightarrow> bytes \<Rightarrow> world \<Rightarrow> recover_step" where
  "recover_round rd buf w =
     (case Peek rd bufSize of
        (rd1, header, Some err) \<Rightarrow>
          if err = EOF then (if header = [] then Stop (Return (EOF, w))
                             else recover_frame rd1 header buf w)
          else Stop (Return (err, w))
      | (rd1, header, None) \<Rightarrow> recover_frame rd1 header buf w)"

definition remaining :: "Reader \<Rightarrow> nat" where
  "remaining b = length (rd_buf b) + length (rd_src b)"

lemma remaining_fill: "remaining (fill b) = remaining b"
  by (simp add: remaining_def fill_def Let_def)

lemma remaining_peek_fill: "remaining (peek_fill b n) = remaining b"
proof (induction b n rule: peek_fill.induct)
  case (1 b n)
  show ?case
  proof (cases "length (rd_buf b) < n \<and> length (rd_buf b) < rd_size b \<and> rd_err b = None")
    case True
    then have "peek_fill b n = peek_fill (fill b) n"
      by (subst peek_fill.simps) simp
    with 1 True show ?thesis
      by (simp add: remaining_fill)
  next
    case False
    then have "peek_fill b n = b"
      by (subst peek_fill.simps) auto
    then show ?thesis by simp
  qed
qed

lemma remaining_Peek: "Peek b n = (b', h, e) \<Longrightarrow> remaining b' = remaining b"
  using remaining_peek_fill [of b n]
  by (auto simp: Peek_def Let_def readErr_def remaining_def split: if_splits option.splits)

lemma remaining_Read:
  "Read b n = (b', got, None) \<Longrightarrow> remaining b' + length got = remaining b"
  by (auto simp: Read_def copy_out_def readErr_def remaining_def Let_def min_def
           split: if_splits)

lemma Decode_ok_length: "Decode e (got, spare) = (e', None) \<Longrightarrow> 4 \<le> length got"
  by (auto simp: Decode_def slice_from_def split: result.splits if_splits)

lemma recover_frame_Continue:
  "recover_frame rd1 header buf w = Continue rd2 buf2 w2 \<Longrightarrow> remaining rd2 < remaining rd1"
  by (auto simp: recover_frame_def split: result.splits prod.splits option.splits if_splits
           dest!: remaining_Read Decode_ok_length)

lemma recover_round_Continue:
  "recover_round rd buf w = Continue rd2 buf2 w2 \<Longrightarrow> remaining rd2 < remaining rd"
  by (auto simp: recover_round_def split: prod.splits option.splits if_splits
           dest!: remaining_Peek recover_frame_Continue)

function recover_loop :: "Reader \<Rightarrow> bytes \<Rightarrow> world \<Rightarrow> (error \<times> world) result" where
  "recover_loop rd buf w =
     (case recover_round rd buf w of
        Stop r \<Rightarrow> r
      | Continue rd2 buf2 w2 \<Rightarrow> recover_loop rd2 buf2 w2)"
  by pat_completeness auto
termination
  by (relation "measure (\<lambda>(rd, buf, w). remaining rd)")
     (auto dest: recover_round_Continue)

declare recover_loop.simps [simp del]

text \<open>
  \<^verbatim>\<open>recover\<close> reads \<^verbatim>\<open>db.out\<close> from the start, through a reader of \<open>bufSize\<close> bytes; a
  nil or closed file fails its first read, which \<^verbatim>\<open>Peek\<close> reports.
\<close>

definition recover :: "world \<Rightarrow> (error \<times> world) result" where
  "recover w =
     (case out (db w) of
        None \<Rightarrow> Return (ErrInvalid, w)
      | Some f \<Rightarrow>
          if f_closed f then Return (ErrClosed, w)
          else (case map_of (files (os w)) (f_name f) of
                  None \<Rightarrow> Return (ENOENT, w)
                | Some content \<Rightarrow>
                    recover_loop (NewReaderSize content bufSize)
                                 (replicate bufSize (CHR 0x00)) w))"

text \<open>
  \<^verbatim>\<open>NewDb\<close>; with an error the Go function returns no store, and the world of the
  outcome only shows what has happened to the files.
\<close>

definition NewDb :: "string \<Rightarrow> int \<Rightarrow> os_state \<Rightarrow> (error option \<times> world) result" where
  "NewDb d segSize fs =
     (let w0 = \<lparr>db = \<lparr>out = None, outPath = [], outOffset = 0, dir = d,
                      segmentSize = segSize, lastSegmentIndex = 0, segments = []\<rparr>,
                os = fs, merges = 0\<rparr>
      in case createNewSegment w0 of
           (Some err, w1) \<Rightarrow> Return (Some err, w1)
         | (None, w1) \<Rightarrow>
             (case recover w1 of
                Panic p \<Rightarrow> Panic p
              | Return (err, w2) \<Rightarrow>
                  if err \<noteq> EOF then Return (Some err, w2) else Return (None, w2)))"

section \<open>The balancer (\<^verbatim>\<open>cmd/lb/balancer.go\<close>)\<close>

subsection \<open>Flags and the timeout\<close>

text \<open>
  The package-level variables are initialised before \<^verbatim>\<open>main\<close> runs: \<^verbatim>\<open>flag.Int\<close> gives
  each flag its default, and \<^verbatim>\<open>timeout = time.Duration(*timeoutSec) * time.Second\<close> is
  computed then. \<^verbatim>\<open>main\<close> starts with \<^verbatim>\<open>flag.Parse()\<close>, which stores the values of the
  command line in the flags. A \<^verbatim>\<open>time.Duration\<close> counts nanoseconds. \<^verbatim>\<open>health\<close> and
  \<^verbatim>\<open>forward\<close> both build their context with \<^verbatim>\<open>context.WithTimeout(_, timeout)\<close>.
\<close>

record flags =
  port :: int
  timeoutSec :: int
  https :: bool
  traceEnabled :: bool

record args =
  arg_port :: "int option"
  arg_timeout_sec :: "int option"
  arg_https :: "bool option"
  arg_trace :: "bool option"

record globals =
  flag_values :: flags
  timeout :: int

definition Second :: int where
  "Second = 1000000000"

definition flag_defaults :: flags where
  "flag_defaults = \<lparr>port = 8090, timeoutSec = 3, https = False, traceEnabled = False\<rparr>"

definition package_init :: globals where
  "package_init = \<lparr>flag_values = flag_defaults, timeout = timeoutSec flag_defaults * Second\<rparr>"

definition flag_Parse :: "args \<Rightarrow> flags \<Rightarrow> flags" where
  "flag_Parse a f =
     \<lparr>port = (case arg_port a of None \<Rightarrow> port f | Some v \<Rightarrow> v),
      timeoutSec = (case arg_timeout_sec a of None \<Rightarrow> timeoutSec f | Some v \<Rightarrow> v),
      https = (case arg_https a of None \<Rightarrow> https f | Some v \<Rightarrow> v),
      traceEnabled = (case arg_trace a of None \<Rightarrow> traceEnabled f | Some v \<Rightarrow> v)\<rparr>"

definition main_start :: "args \<Rightarrow> globals" where
  "main_start a = package_init\<lparr>flag_values := flag_Parse a (flag_values package_init)\<rparr>"

definition health_deadline :: "globals \<Rightarrow> int" where
  "health_deadline g = timeout g"

definition forward_deadline :: "globals \<Rightarrow> int" where
  "forward_deadline g = timeout g"

subsection \<open>The heap of online servers\<close>

text \<open>
  \<^verbatim>\<open>serversPool\<close> holds the servers; \<^verbatim>\<open>onlineServers\<close> is a \<^verbatim>\<open>ServerHeap\<close>, a slice of
  pointers to them: a pointer is the position of its server in the pool, so two entries
  of the heap may be the same server. \<open>up\<close>, \<open>down\<close>, \<open>Fix\<close>, \<open>Push\<close> and \<open>Remove\<close> are
  those of \<^verbatim>\<open>container/heap\<close> over \<^verbatim>\<open>Len\<close>, \<^verbatim>\<open>Less\<close> and \<^verbatim>\<open>Swap\<close> of \<^verbatim>\<open>ServerHeap\<close>; they
  only index the heap below its length. The counters \<^verbatim>\<open>ComplexityCount\<close> and
  \<^verbatim>\<open>IterationsCount\<close> count calls and decide nothing; they are left out.
\<close>

record Server =
  address :: string
  connCnt :: int
  isServerOnline :: bool

record balancer =
  serversPool :: "Server list"
  onlineServers :: "nat list"

definition Less :: "Server list \<Rightarrow> nat list \<Rightarrow> nat \<Rightarrow> nat \<Rightarrow> bool" where
  "Less pool h i j = (connCnt (pool ! (h ! i)) < connCnt (pool ! (h ! j)))"

definition Swap :: "nat list \<Rightarrow> nat \<Rightarrow> nat \<Rightarrow> nat list" where
  "Swap h i j = h[i := h ! j, j := h ! i]"

function up :: "Server list \<Rightarrow> nat list \<Rightarrow> nat \<Rightarrow> nat list" where
  "up pool h j =
     (let i = (j - 1) div 2 in
      if i = j \<or> \<not> Less pool h j i then h else up pool (Swap h i j) i)"
  by pat_completeness auto
termination
  by (relation "measure (\<lambda>(pool, h, j). j)") auto

declare up.simps [simp del]

function down_loop :: "Server list \<Rightarrow> nat list \<Rightarrow> nat \<Rightarrow> nat \<Rightarrow> nat list \<times> nat" where
  "down_loop pool h i n =
     (let j1 = 2 * i + 1 in
      if j1 \<ge> n then (h, i)
      else let j = (if j1 + 1 < n \<and> Less pool h (j1 + 1) j1 then j1 + 1 else j1) in
           if \<not> Less pool h j i then (h, i)
           else down_loop pool (Swap h i j) j n)"
  by pat_completeness auto
termination
  by (relation "measure (\<lambda>(pool, h, i, n). n - i)") (auto split: if_splits)

declare down_loop.simps [simp del]

definition down :: "Server list \<Rightarrow> nat list \<Rightarrow> nat \<Rightarrow> nat \<Rightarrow> nat list \<times> bool" where
  "down pool h i0 n = (case down_loop pool h i0 n of (h', i) \<Rightarrow> (h', i > i0))"

definition Fix :: "Server list \<Rightarrow> nat list \<Rightarrow> nat \<Rightarrow> nat list" where
  "Fix pool h i =
     (case down pool h i (length h) of
        (h', moved) \<Rightarrow> if \<not> moved then up pool h' i else h')"

definition Push :: "Server list \<Rightarrow> nat list \<Rightarrow> nat \<Rightarrow> nat list" where
  "Push pool h x = up pool (h @ [x]) (length (h @ [x]) - 1)"

definition Remove :: "Server list \<Rightarrow> nat list \<Rightarrow> nat \<Rightarrow> nat list" where
  "Remove pool h i =
     (let n = length h - 1 in
      butlast (if n \<noteq> i
               then (case down pool (Swap h i n) i n of
                       (h', moved) \<Rightarrow> if \<not> moved then up pool h' i else h')
               else h))"

subsection \<open>Health checks and dispatch\<close>

text \<open>
  \<open>healthCheckUp server healthy\<close> is the closure of \<^verbatim>\<open>main\<close> for the server at position
  \<open>server\<close> of the pool, with \<open>healthy\<close> the answer of \<^verbatim>\<open>health(server.address)\<close>.
  No statement of the program assigns the field \<^verbatim>\<open>isServerOnline\<close>.
\<close>

fun indexOf :: "nat \<Rightarrow> nat list \<Rightarrow> nat \<Rightarrow> nat option" where
  "indexOf server [] i = None"
| "indexOf server (s # ss) i = (if s = server then Some i else indexOf server ss (i + 1))"

definition healthCheckUp :: "nat \<Rightarrow> bool \<Rightarrow> balancer \<Rightarrow> balancer" where
  "healthCheckUp server healthy b =
     (if healthy \<and> \<not> isServerOnline (serversPool b ! server)
      then b\<lparr>onlineServers := Push (serversPool b) (onlineServers b) server\<rparr>
      else if \<not> healthy \<and> isServerOnline (serversPool b ! server)
      then (case indexOf server (onlineServers b) 0 of
              None \<Rightarrow> b
            | Some serverIndex \<Rightarrow>
                b\<lparr>onlineServers := Remove (serversPool b) (onlineServers b) serverIndex\<rparr>)
      else b)"

text \<open>
  The handler of the front end, in two steps, since other requests are served while
  \<^verbatim>\<open>forward\<close> waits for the backend: \<open>dispatch\<close> runs up to the call of \<^verbatim>\<open>forward\<close> and
  tells whether status 502 was written or which server the request goes to; \<open>finish\<close>
  is the statement after \<^verbatim>\<open>forward\<close> has returned, \<^verbatim>\<open>server.connCnt--\<close>.
\<close>

datatype dispatched = BadGateway | ForwardTo nat

definition dispatch :: "balancer \<Rightarrow> dispatched \<times> balancer" where
  "dispatch b =
     (if length (onlineServers b) = 0 then (BadGateway, b)
      else let h = Fix (serversPool b) (onlineServers b) 0;
               server = h ! 0;
               srv = serversPool b ! server
           in (ForwardTo server,
               b\<lparr>onlineServers := h,
                 serversPool := (serversPool b)[server := srv\<lparr>connCnt := connCnt srv + 1\<rparr>]\<rparr>))"

definition finish :: "nat \<Rightarrow> balancer \<Rightarrow> balancer" where
  "finish server b =
     (let srv = serversPool b ! server
      in b\<lparr>serversPool := (serversPool b)[server := srv\<lparr>connCnt := connCnt srv - 1\<rparr>]\<rparr>)"

definition balancer_init :: balancer where
  "balancer_init =
     \<lparr>serversPool =
        [\<lparr>address = ''server1:8080'', connCnt = 0, isServerOnline = False\<rparr>,
         \<lparr>address = ''server2:8080'', connCnt = 0, isServerOnline = False\<rparr>,
         \<lparr>address = ''server3:8080'', connCnt = 0, isServerOnline = False\<rparr>],
      onlineServers = []\<rparr>"

text \<open>
  What happens to a running balancer, in order: a health check of a server with its
  answer, an inbound request reaching \<open>dispatch\<close>, or a forwarded request coming back.
  \<open>run\<close> gives the outcomes of the requests, first to last, and the final state.
\<close>

datatype event = Probe nat bool | Request | Done nat

fun run :: "event list \<Rightarrow> balancer \<Rightarrow> dispatched list \<times> balancer" where
  "run [] b = ([], b)"
| "run (Probe server healthy # es) b = run es (healthCheckUp server healthy b)"
| "run (Request # es) b =
     (case dispatch b of (r, b') \<Rightarrow> (case run es b' of (rs, b'') \<Rightarrow> (r # rs, b'')))"
| "run (Done server # es) b = run es (finish server b)"

section \<open>Scenarios of the store\<close>

text \<open>
  A caller that issues a list of puts one after the other and collects what each
  \<^verbatim>\<open>Put\<close> returns.
\<close>

fun puts :: "(bytes \<times> bytes) list \<Rightarrow> world \<Rightarrow> (error option list \<times> world) result" where
  "puts [] w = Return ([], w)"
| "puts ((k, v) # kvs) w =
     (case Put k v w of
        Panic p \<Rightarrow> Panic p
      | Return (err, w1) \<Rightarrow>
          (case puts kvs w1 of
             Panic p \<Rightarrow> Panic p
           | Return (errs, w2) \<Rightarrow> Return (err # errs, w2)))"

text \<open>An empty directory \<^verbatim>\<open>/db\<close> on a device with room to spare.\<close>

definition os_empty :: os_state where
  "os_empty = \<lparr>files = [], dirs = [''/db''], free_space = 1000000\<rparr>"

text \<open>The store that \<^verbatim>\<open>NewDb("/db", 45)\<close> opens there.\<close>

definition store_open :: world where
  "store_open =
     \<lparr>db = \<lparr>out = Some \<lparr>f_name = ''/db/current-data0'', f_closed = False\<rparr>,
             outPath = ''/db/current-data0'', outOffset = 0, dir = ''/db'',
             segmentSize = 45, lastSegmentIndex = 1,
             segments = [\<lparr>s_outOffset = 0, index = [], filePath = ''/db/current-data0''\<rparr>]\<rparr>,
      os = \<lparr>files = [(''/db/current-data0'', [])], dirs = [''/db''], free_space = 1000000\<rparr>,
      merges = 0\<rparr>"

text \<open>The same store after \<^verbatim>\<open>Put("1", "a")\<close>: one frame of 15 bytes, indexed at offset 0.\<close>

definition store_1a :: world where
  "store_1a =
     \<lparr>db = \<lparr>out = Some \<lparr>f_name = ''/db/current-data0'', f_closed = False\<rparr>,
             outPath = ''/db/current-data0'', outOffset = 15, dir = ''/db'',
             segmentSize = 45, lastSegmentIndex = 1,
             segments = [\<lparr>s_outOffset = 0, index = [(''1'', 0)],
                         filePath = ''/db/current-data0''\<rparr>]\<rparr>,
      os = \<lparr>files = [(''/db/current-data0'',
                       Encode \<lparr>e_key = ''1'', e_value = ''as'', e_dataType = []\<rparr>)],
             dirs = [''/db''], free_space = 999985\<rparr>,
      merges = 0\<rparr>"

text \<open>The open store on a device that can take five more bytes.\<close>

definition store_full :: world where
  "store_full = store_open\<lparr>os := (os store_open)\<lparr>free_space := 5\<rparr>\<rparr>"

lemmas codec_eval = Encode_def PutUint32_def uint32_def char_of_eq_iff take_bit_eq_mod Let_def

lemmas reader_eval = NewReaderSize_def NewReader_def Peek_def peek_fill.simps fill_def
  readErr_def Read_def copy_out_def Discard_def discard_loop.simps Let_def

lemmas file_eval = OpenFile_def parent_def Stat_def Write_def Close_file_def Join_def

lemmas segment_eval = createNewSegment_def generateNewFileName_def outFileName_def
  decimal.simps setKey_def

lemmas newdb_eval = NewDb_def recover_def recover_loop.simps recover_round_def
  recover_frame_def bufSize_def Decode_def slice_from_def slice_range_def make_copy_def

lemmas put_eval = Put_def PutGoroutine_def GetLength_def getLength_def

lemmas get_eval = Get_def getSegmentAndPos_def getFromSegment_def readValue_def

lemma frame_1a:
  "Encode \<lparr>e_key = ''1'', e_value = ''as'', e_dataType = []\<rparr> =
     [CHR 0x0F, CHR 0x00, CHR 0x00, CHR 0x00, CHR 0x01, CHR 0x00, CHR 0x00, CHR 0x00, CHR ''1'',
      CHR 0x02, CHR 0x00, CHR 0x00, CHR 0x00, CHR ''a'', CHR ''s'']"
  by (simp add: codec_eval)

lemma NewDb_os_empty: "NewDb ''/db'' 45 os_empty = Return (None, store_open)"
  by (simp add: os_empty_def store_open_def newdb_eval segment_eval file_eval reader_eval)

lemma Put_store_open: "Put ''1'' ''a'' store_open = Return (None, store_1a)"
  by (simp add: store_open_def store_1a_def put_eval segment_eval file_eval codec_eval)

lemma Get_store_1a: "Get ''1'' store_1a = Return ([], Some EOF)"
  by (simp add: store_1a_def frame_1a get_eval reader_eval)

text \<open>
  C1 (the code does otherwise). The claim: after the puts of a key, \<^verbatim>\<open>Get\<close> returns the
  value of the last put, without its type tag. The code, on the first put of the
  repository's own test: \<^verbatim>\<open>NewDb\<close> on an empty directory and \<^verbatim>\<open>Put("1", "a")\<close> succeed,
  and the \<^verbatim>\<open>Get("1")\<close> that follows returns the error \<^verbatim>\<open>io.EOF\<close> and no value:
  \<^verbatim>\<open>readValue\<close> takes the four bytes of the value length for a data type and then
  looks for a length in the value itself.
\<close>

theorem C1_get_after_put_fails:
  "NewDb ''/db'' 45 os_empty = Return (None, store_open) \<and>
   puts [(''1'', ''a'')] store_open = Return ([None], store_1a) \<and>
   Get ''1'' store_1a = Return ([], Some EOF)"
  by (simp add: NewDb_os_empty Put_store_open Get_store_1a)

text \<open>
  C2 (the code does otherwise). The claim: a put whose write fails reports the I/O error
  and leaves the index alone; a put whose write succeeds reports nil. The code, on a
  device with room for five bytes only: the write of the 15-byte frame stores five bytes
  and fails with \<^verbatim>\<open>ENOSPC\<close>, the index is left alone, and \<^verbatim>\<open>Put\<close> returns nil all the
  same, since the loop ends every round that reaches the write with
  \<^verbatim>\<open>db.putDone <- nil\<close>.
\<close>

theorem C2_write_error_not_reported:
  "Write (out (db store_full)) (Encode \<lparr>e_key = ''1'', e_value = ''as'', e_dataType = []\<rparr>)
         (os store_full) =
     (5, Some ENOSPC,
      \<lparr>files = [(''/db/current-data0'', [CHR 0x0F, CHR 0x00, CHR 0x00, CHR 0x00, CHR 0x01])],
       dirs = [''/db''], free_space = 0\<rparr>) \<and>
   Put ''1'' ''a'' store_full =
     Return (None,
       store_full\<lparr>os := \<lparr>files = [(''/db/current-data0'',
                                      [CHR 0x0F, CHR 0x00, CHR 0x00, CHR 0x00, CHR 0x01])],
                          dirs = [''/db''], free_space = 0\<rparr>\<rparr>)"
  by (simp add: store_full_def store_open_def put_eval segment_eval file_eval codec_eval)

text \<open>
  C3 (the code does otherwise). The claim: on a stream at the start of a frame
  \<^verbatim>\<open>[total_len][key_len][key][value_len][value]\<close>, \<^verbatim>\<open>readValue\<close> returns the value
  bytes. The code, on the frame that \<^verbatim>\<open>Encode\<close> builds for the key \<^verbatim>\<open>1\<close> and the value
  \<^verbatim>\<open>as\<close>: it returns the error \<^verbatim>\<open>io.EOF\<close> and no value, because after the key it
  consumes four bytes (the value length) before it peeks four more as the length, and
  only the two value bytes are left.
\<close>

theorem C3_readValue_misreads_frame:
  "readValue (NewReader (Encode \<lparr>e_key = ''1'', e_value = ''as'', e_dataType = []\<rparr>)) =
     Return ([], Some EOF)"
  by (simp add: frame_1a readValue_def reader_eval)

section \<open>Decoding an encoded entry\<close>

lemma length_PutUint32 [simp]: "length (PutUint32 n) = 4"
  by (simp add: PutUint32_def)

lemma four_bytes_value:
  fixes n :: nat
  assumes "n < 4294967296"
  shows "n mod 256 + 256 * (n div 256 mod 256) + 65536 * (n div 65536 mod 256)
           + 16777216 * (n div 16777216) = n"
proof -
  define q1 where "q1 = n div 256"
  define q2 where "q2 = q1 div 256"
  define q3 where "q3 = q2 div 256"
  define r0 where "r0 = n mod 256"
  define r1 where "r1 = q1 mod 256"
  define r2 where "r2 = q2 mod 256"
  have 1: "n = r0 + 256 * q1"
    by (simp add: q1_def r0_def)
  have 2: "q1 = r1 + 256 * q2"
    by (simp add: q2_def r1_def)
  have 3: "q2 = r2 + 256 * q3"
    by (simp add: q3_def r2_def)
  have a: "n div 65536 = q2" and b: "n div 16777216 = q3"
    by (simp_all add: q3_def q2_def q1_def div_mult2_eq [symmetric])
  have "r0 + 256 * r1 + 65536 * r2 + 16777216 * q3 = n"
    using 1 2 3 by linarith
  then show ?thesis
    by (simp add: a b r0_def r1_def r2_def q1_def)
qed

lemma Uint32_PutUint32: "n < 4294967296 \<Longrightarrow> Uint32 (PutUint32 n @ rest) = Return n"
  using four_bytes_value [of n] by (simp add: PutUint32_def)

text \<open>
  C4 (the code does otherwise). The claim: \<^verbatim>\<open>Decode\<close> of the bytes of \<^verbatim>\<open>Encode\<close> gives the
  key and the value back. The code: for every entry whose frame length fits 32 bits,
  \<^verbatim>\<open>Decode\<close> of its frame (a slice of exactly the frame, as \<^verbatim>\<open>Encode\<close> allocates it)
  assigns the key and the value and then panics with an index out of range, reading
  the length of a data type at the end of the frame, where \<^verbatim>\<open>Encode\<close> has written
  nothing. It never returns.
\<close>

theorem C4_decode_of_encode_panics:
  assumes "length (e_key e) + length (e_value e) + 12 < 4294967296"
  shows "Decode e0 (Encode e, []) =
           (e0\<lparr>e_key := e_key e, e_value := e_value e\<rparr>, Some IndexOutOfRange)"
proof -
  have kl: "length (e_key e) < 4294967296" and vl: "length (e_value e) < 4294967296"
    using assms by simp_all
  show ?thesis
    using assms
    by (simp add: Decode_def Encode_def Let_def uint32_def slice_from_def slice_range_def
          make_copy_def Uint32_PutUint32 [OF kl] Uint32_PutUint32 [OF vl])
qed

theorem C4_decode_of_encode_panics_witness:
  "length (e_key \<lparr>e_key = ''1'', e_value = ''as'', e_dataType = []\<rparr>)
     + length (e_value \<lparr>e_key = ''1'', e_value = ''as'', e_dataType = []\<rparr>) + 12 < (4294967296 :: nat) \<and>
   Decode \<lparr>e_key = [], e_value = [], e_dataType = []\<rparr>
          (Encode \<lparr>e_key = ''1'', e_value = ''as'', e_dataType = []\<rparr>, []) =
     (\<lparr>e_key = ''1'', e_value = ''as'', e_dataType = []\<rparr>, Some IndexOutOfRange)"
  using C4_decode_of_encode_panics
    [of "\<lparr>e_key = ''1'', e_value = ''as'', e_dataType = []\<rparr>"
        "\<lparr>e_key = [], e_value = [], e_dataType = []\<rparr>"]
  by simp

section \<open>Merge, reopening and closing\<close>

definition v4 :: bytes where
  "v4 = [CHR 0x01, CHR 0x00, CHR 0x00, CHR 0x00]"

text \<open>The store that \<^verbatim>\<open>NewDb("/db", 20)\<close> opens in the empty directory.\<close>

definition merge_open :: world where
  "merge_open =
     \<lparr>db = \<lparr>out = Some \<lparr>f_name = ''/db/current-data0'', f_closed = False\<rparr>,
             outPath = ''/db/current-data0'', outOffset = 0, dir = ''/db'',
             segmentSize = 20, lastSegmentIndex = 1,
             segments = [\<lparr>s_outOffset = 0, index = [], filePath = ''/db/current-data0''\<rparr>]\<rparr>,
      os = \<lparr>files = [(''/db/current-data0'', [])], dirs = [''/db''], free_space = 1000000\<rparr>,
      merges = 0\<rparr>"

text \<open>
  After three puts, each of which fills a segment: the third rotation has brought the
  segments to three and started a merge.
\<close>

definition merge_before :: world where
  "merge_before =
     \<lparr>db = \<lparr>out = Some \<lparr>f_name = ''/db/current-data2'', f_closed = False\<rparr>,
             outPath = ''/db/current-data2'', outOffset = 15, dir = ''/db'',
             segmentSize = 20, lastSegmentIndex = 3,
             segments =
               [\<lparr>s_outOffset = 0, index = [(''k'', 0)], filePath = ''/db/current-data0''\<rparr>,
                \<lparr>s_outOffset = 0, index = [(''a'', 0)], filePath = ''/db/current-data1''\<rparr>,
                \<lparr>s_outOffset = 0, index = [(''b'', 0)], filePath = ''/db/current-data2''\<rparr>]\<rparr>,
      os = \<lparr>files =
               [(''/db/current-data0'',
                 Encode \<lparr>e_key = ''k'', e_value = v4 @ ''s'', e_dataType = []\<rparr>),
                (''/db/current-data1'',
                 Encode \<lparr>e_key = ''a'', e_value = ''xs'', e_dataType = []\<rparr>),
                (''/db/current-data2'',
                 Encode \<lparr>e_key = ''b'', e_value = ''ys'', e_dataType = []\<rparr>)],
             dirs = [''/db''], free_space = 999952\<rparr>,
      merges = 1\<rparr>"

text \<open>After the merge has run: the merged segment and the active one.\<close>

definition merge_after :: world where
  "merge_after =
     \<lparr>db = \<lparr>out = Some \<lparr>f_name = ''/db/current-data2'', f_closed = False\<rparr>,
             outPath = ''/db/current-data2'', outOffset = 15, dir = ''/db'',
             segmentSize = 20, lastSegmentIndex = 4,
             segments =
               [\<lparr>s_outOffset = 0, index = [(''k'', 0), (''a'', 14)],
                 filePath = ''/db/current-data3''\<rparr>,
                \<lparr>s_outOffset = 0, index = [(''b'', 0)], filePath = ''/db/current-data2''\<rparr>]\<rparr>,
      os = \<lparr>files =
               [(''/db/current-data0'',
                 Encode \<lparr>e_key = ''k'', e_value = v4 @ ''s'', e_dataType = []\<rparr>),
                (''/db/current-data1'',
                 Encode \<lparr>e_key = ''a'', e_value = ''xs'', e_dataType = []\<rparr>),
                (''/db/current-data2'',
                 Encode \<lparr>e_key = ''b'', e_value = ''ys'', e_dataType = []\<rparr>),
                (''/db/current-data3'',
                 Encode \<lparr>e_key = ''k'', e_value = ''s'', e_dataType = []\<rparr>
                 @ Encode \<lparr>e_key = ''a'', e_value = [], e_dataType = []\<rparr>)],
             dirs = [''/db''], free_space = 999925\<rparr>,
      merges = 0\<rparr>"

lemmas merge_eval = mergeOldSegments_def getFromSegment_def readValue_def deleteMarker_def

lemma NewDb_merge_open: "NewDb ''/db'' 20 os_empty = Return (None, merge_open)"
  by (simp add: os_empty_def merge_open_def newdb_eval segment_eval file_eval reader_eval)

lemma puts_merge_open:
  "puts [(''k'', v4), (''a'', ''x''), (''b'', ''y'')] merge_open =
     Return ([None, None, None], merge_before)"
  by (simp add: merge_open_def merge_before_def v4_def put_eval segment_eval file_eval
        codec_eval)

lemma Get_merge_before: "Get ''k'' merge_before = Return ([], None)"
  by (simp add: merge_before_def v4_def codec_eval get_eval reader_eval)

lemma mergeOldSegments_before: "mergeOldSegments merge_before = Return merge_after"
  by (simp add: merge_before_def merge_after_def v4_def merge_eval segment_eval file_eval
        codec_eval reader_eval)

lemma Get_merge_after: "Get ''k'' merge_after = Return ([], Some (ErrCantReadValue 10 3443))"
  by (simp add: merge_after_def v4_def codec_eval get_eval reader_eval)

text \<open>
  What the merge does keep: when its file can be opened and it does not panic, it leaves
  two segments, the new one and the segment that was last, untouched.
\<close>

lemma mergeOldSegments_segments:
  assumes "mergeOldSegments w = Return w'"
    and "OpenFile (os w) (fst (generateNewFileName (db w))) = (Inr f, s1)"
  shows "length (segments (db w')) = 2 \<and> last (segments (db w')) = last (segments (db w))
           \<and> out (db w') = out (db w) \<and> outOffset (db w') = outOffset (db w)"
  using assms
  by (auto simp: mergeOldSegments_def generateNewFileName_def split: prod.splits result.splits
        if_splits)

text \<open>
  C5 (the code does otherwise). The claim: after the merge triggered at three segments
  there are two segments, the active one unchanged, and every key that could be read
  before reads the same value. The code, with a segment size of 20: three puts leave
  three segments and a started merge, and \<^verbatim>\<open>Get("k")\<close> returns a value without error;
  the merge leaves two segments; after it \<^verbatim>\<open>Get("k")\<close> returns an error. The merge
  copies what \<^verbatim>\<open>readValue\<close> gives it into frames that \<^verbatim>\<open>readValue\<close> then reads
  differently.
\<close>

theorem C5_merge_changes_readable_value:
  "NewDb ''/db'' 20 os_empty = Return (None, merge_open) \<and>
   puts [(''k'', v4), (''a'', ''x''), (''b'', ''y'')] merge_open =
     Return ([None, None, None], merge_before) \<and>
   length (segments (db merge_before)) = 3 \<and> merges merge_before = 1 \<and>
   Get ''k'' merge_before = Return ([], None) \<and>
   mergeOldSegments merge_before = Return merge_after \<and>
   length (segments (db merge_after)) = 2 \<and>
   last (segments (db merge_after)) = last (segments (db merge_before)) \<and>
   Get ''k'' merge_after = Return ([], Some (ErrCantReadValue 10 3443))"
  by (simp only: NewDb_merge_open puts_merge_open Get_merge_before mergeOldSegments_before
        Get_merge_after simp_thms)
     (simp add: merge_before_def merge_after_def)

text \<open>
  C6 (the code does otherwise). The claim: a store reopened on the same directory
  answers \<^verbatim>\<open>Get\<close> with the last value put before the close. The code: after
  \<^verbatim>\<open>Put("1", "a")\<close> and \<^verbatim>\<open>Close\<close>, \<^verbatim>\<open>NewDb\<close> on the same directory does not return: its
  \<^verbatim>\<open>recover\<close> hands the first frame to \<^verbatim>\<open>Decode\<close>, which panics.
\<close>

theorem C6_reopen_panics:
  "puts [(''1'', ''a'')] store_open = Return ([None], store_1a) \<and>
   fst (Close store_1a) = None \<and>
   os (snd (Close store_1a)) = os store_1a \<and>
   NewDb ''/db'' 45 (os (snd (Close store_1a))) = Panic IndexOutOfRange"
  by (simp add: Put_store_open)
     (simp add: store_1a_def frame_1a Close_def uint32_def newdb_eval segment_eval file_eval
        reader_eval)

text \<open>
  C10, as stated, fails: on the store just opened, \<^verbatim>\<open>Close\<close> succeeds and the
  \<^verbatim>\<open>Put("1", "a")\<close> that follows returns \<^verbatim>\<open>os.ErrClosed\<close>, not nil.
\<close>

theorem C10_put_after_close_counterexample:
  "fst (Close store_open) = None \<and>
   Put ''1'' ''a'' (snd (Close store_open)) = Return (Some ErrClosed, snd (Close store_open)) \<and>
   (\<forall>w'. Put ''1'' ''a'' (snd (Close store_open)) \<noteq> Return (None, w'))"
  by (simp add: store_open_def Close_def put_eval file_eval)

text \<open>
  C10, amended. For every store on which \<^verbatim>\<open>Close\<close> has been called, a \<^verbatim>\<open>Put\<close> that
  follows returns an error and not nil: the round of the writer loop starts with
  \<^verbatim>\<open>db.out.Stat()\<close>, which fails on the closed file with \<^verbatim>\<open>os.ErrClosed\<close> (on a nil
  file with \<^verbatim>\<open>os.ErrInvalid\<close>), and sends that error to \<^verbatim>\<open>putDone\<close>. Nothing is written
  and no index is changed: the state is the one \<^verbatim>\<open>Close\<close> left.
\<close>

theorem C10_put_after_close_reports_error:
  "Put k v (snd (Close w)) =
     Return (Some (if out (db w) = None then ErrInvalid else ErrClosed), snd (Close w))"
  by (simp add: Put_def PutGoroutine_def Close_def Close_file_def Stat_def Let_def
        split: option.splits)

section \<open>Scenarios of the balancer\<close>

lemmas lb_eval = dispatch_def finish_def healthCheckUp_def Push_def Fix_def down_def
  down_loop.simps up.simps Less_def Swap_def balancer_init_def Let_def

text \<open>
  The live backends in the words of the specification, for comparison with
  \<^verbatim>\<open>onlineServers\<close>: a backend is live when its most recent health probe was answered
  with status 200. \<open>last_probe es s\<close> is the answer of the last probe of server \<open>s\<close> among
  the events \<open>es\<close>, and \<open>spec_live es\<close> lists the live servers of the pool of three.
\<close>

fun last_probe :: "event list \<Rightarrow> nat \<Rightarrow> bool option" where
  "last_probe [] s = None"
| "last_probe (Probe s' healthy # es) s =
     (case last_probe es s of
        Some r \<Rightarrow> Some r
      | None \<Rightarrow> if s' = s then Some healthy else None)"
| "last_probe (Request # es) s = last_probe es s"
| "last_probe (Done s' # es) s = last_probe es s"

definition spec_live :: "event list \<Rightarrow> nat list" where
  "spec_live es = filter (\<lambda>s. last_probe es s = Some True) [0, 1, 2]"

text \<open>
  All three backends answer the probes at startup and again at the first periodic round;
  then three requests arrive, and the first of them, on server 0, comes back.
\<close>

definition busy_trace :: "event list" where
  "busy_trace =
     [Probe 0 True, Probe 1 True, Probe 2 True,
      Probe 0 True, Probe 1 True, Probe 2 True,
      Request, Request, Request, Done 0]"

definition busy_balancer :: balancer where
  "busy_balancer =
     \<lparr>serversPool =
        [\<lparr>address = ''server1:8080'', connCnt = 0, isServerOnline = False\<rparr>,
         \<lparr>address = ''server2:8080'', connCnt = 1, isServerOnline = False\<rparr>,
         \<lparr>address = ''server3:8080'', connCnt = 1, isServerOnline = False\<rparr>],
      onlineServers = [2, 1, 2, 0, 0, 1]\<rparr>"

text \<open>
  C7 (the code does otherwise). The claim: every request is sent to a live backend with
  the least in-flight count. The code: every healthy probe pushes its server onto the
  heap again (\<^verbatim>\<open>isServerOnline\<close> stays false), so after two rounds of probes the heap
  has six entries; \<^verbatim>\<open>heap.Fix(&onlineServers, 0)\<close> repairs the heap at the root only,
  while a count that drops changes the order anywhere. With all three backends live,
  three requests under way on servers 0, 1, 2 and the one on server 0 finished, the
  counts are 0, 1, 1, and the next request goes to server 2, whose count is 1.
\<close>

theorem C7_dispatch_not_least_loaded:
  "spec_live busy_trace = [0, 1, 2] \<and>
   run busy_trace balancer_init = ([ForwardTo 0, ForwardTo 1, ForwardTo 2], busy_balancer) \<and>
   map connCnt (serversPool busy_balancer) = [0, 1, 1] \<and>
   0 \<in> set (onlineServers busy_balancer) \<and>
   fst (dispatch busy_balancer) = ForwardTo 2"
  by (simp add: busy_trace_def busy_balancer_def spec_live_def lb_eval)

text \<open>
  What the handler does check: with no entry in \<^verbatim>\<open>onlineServers\<close> it answers 502 and
  changes nothing.
\<close>

lemma dispatch_no_online_servers: "onlineServers b = [] \<Longrightarrow> dispatch b = (BadGateway, b)"
  by (simp add: dispatch_def)

text \<open>A health check that finds a server down leaves \<^verbatim>\<open>onlineServers\<close> as it is.\<close>

lemma healthCheckUp_unhealthy:
  "\<not> isServerOnline (serversPool b ! server) \<Longrightarrow> healthCheckUp server False b = b"
  by (simp add: healthCheckUp_def)

text \<open>
  Server 0 answers the probe at startup, the other two do not; later server 0 fails its
  probe as well.
\<close>

definition dead_trace :: "event list" where
  "dead_trace = [Probe 0 True, Probe 1 False, Probe 2 False, Probe 0 False]"

text \<open>
  C8 (the code does otherwise). The claim: a request that arrives when no backend is
  live is answered with 502 and nothing is forwarded. The code: once server 0 has
  answered one probe it stays in \<^verbatim>\<open>onlineServers\<close> for good, because the branch that
  removes a server is guarded by \<^verbatim>\<open>server.isServerOnline\<close>, which is never set. After
  server 0 has failed its latest probe no backend is live, and the request is still
  forwarded to server 0.
\<close>

theorem C8_dead_backend_still_dispatched:
  "spec_live dead_trace = [] \<and>
   onlineServers (snd (run dead_trace balancer_init)) = [0] \<and>
   fst (run (dead_trace @ [Request]) balancer_init) = [ForwardTo 0]"
  by (simp add: dead_trace_def spec_live_def lb_eval)

text \<open>
  C9 (the code does otherwise). The claim: every outbound request uses a deadline of the
  configured \<^verbatim>\<open>-timeout-sec\<close> seconds. The code: \<^verbatim>\<open>timeout\<close> is computed from the flag
  when the package is initialised, before \<^verbatim>\<open>flag.Parse()\<close> has read the command line,
  so whatever value \<open>n\<close> is configured, the flag holds \<open>n\<close> and the health probes and
  the forwarded requests run with a deadline of three seconds.
\<close>

theorem C9_timeout_ignores_flag:
  "timeoutSec (flag_values (main_start (a\<lparr>arg_timeout_sec := Some n\<rparr>))) = n \<and>
   health_deadline (main_start (a\<lparr>arg_timeout_sec := Some n\<rparr>)) = 3 * Second \<and>
   forward_deadline (main_start (a\<lparr>arg_timeout_sec := Some n\<rparr>)) = 3 * Second"
  by (simp add: main_start_def package_init_def flag_Parse_def flag_defaults_def
        health_deadline_def forward_deadline_def)

end
